theory Spec2Isabelle
  imports Complex_Main
begin

section \<open>Exceptions and floating-point values\<close>

text \<open>
  The values of type \<open>error\<close> stand for instances of Python's class \<open>Exception\<close>, the
  class that every handler of the modelled functions catches (\<open>except Exception\<close>, or a
  tuple that contains it). \<open>TimeoutExpired\<close> is kept apart because one handler of
  \<open>apply_optimizations\<close> names it. \<open>KeyboardInterrupt\<close> and \<open>SystemExit\<close>, which do not derive
  from \<open>Exception\<close> and are delivered from outside the sequential control flow, are not
  part of the model.
\<close>

datatype error =
    ValueError
  | OverflowError
  | ZeroDivisionError
  | IndexError
  | ImportError
  | TimeoutExpired
  | OtherError string

text \<open>
  A Python \<open>float\<close> is a finite value, an infinity or a NaN. Finite values are modelled
  as reals: the functions below only compare them with small integer constants, add
  them and divide them, and no claim depends on rounding.
\<close>

datatype pyfloat = Fin real | PInf | NInf | NaN

fun pf_less :: "pyfloat \<Rightarrow> pyfloat \<Rightarrow> bool" where
  "pf_less NaN _ = False"
| "pf_less _ NaN = False"
| "pf_less (Fin a) (Fin b) = (a < b)"
| "pf_less (Fin a) PInf = True"
| "pf_less (Fin a) NInf = False"
| "pf_less PInf _ = False"
| "pf_less NInf NInf = False"
| "pf_less NInf _ = True"

fun pf_eq :: "pyfloat \<Rightarrow> pyfloat \<Rightarrow> bool" where
  "pf_eq NaN _ = False"
| "pf_eq _ NaN = False"
| "pf_eq x y = (x = y)"

definition pf_le :: "pyfloat \<Rightarrow> pyfloat \<Rightarrow> bool" where
  "pf_le x y = (pf_less x y \<or> pf_eq x y)"

fun pf_add :: "pyfloat \<Rightarrow> pyfloat \<Rightarrow> pyfloat" where
  "pf_add NaN _ = NaN"
| "pf_add _ NaN = NaN"
| "pf_add (Fin a) (Fin b) = Fin (a + b)"
| "pf_add (Fin a) y = y"
| "pf_add x (Fin b) = x"
| "pf_add PInf PInf = PInf"
| "pf_add NInf NInf = NInf"
| "pf_add PInf NInf = NaN"
| "pf_add NInf PInf = NaN"

text \<open>\<open>x / n\<close> for a float \<open>x\<close> and a non-zero finite constant \<open>n\<close>.\<close>

fun pf_div_const :: "pyfloat \<Rightarrow> real \<Rightarrow> pyfloat" where
  "pf_div_const (Fin a) n = Fin (a / n)"
| "pf_div_const PInf n = (if 0 < n then PInf else NInf)"
| "pf_div_const NInf n = (if 0 < n then NInf else PInf)"
| "pf_div_const NaN n = NaN"

text \<open>
  \<open>int(x)\<close> truncates a finite float towards zero, raises \<open>OverflowError\<close> on an
  infinity and \<open>ValueError\<close> on a NaN.
\<close>

definition trunc :: "real \<Rightarrow> int" where
  "trunc r = (if 0 \<le> r then \<lfloor>r\<rfloor> else \<lceil>r\<rceil>)"

fun py_int :: "pyfloat \<Rightarrow> error + int" where
  "py_int (Fin r) = Inr (trunc r)"
| "py_int PInf = Inl OverflowError"
| "py_int NInf = Inl OverflowError"
| "py_int NaN = Inl ValueError"

section \<open>NetworkOptimizer: bandwidth detection\<close>

text \<open>
  The environment of \<open>detect_bandwidth\<close>: whether \<open>import requests\<close> succeeds, what
  \<open>requests.get(url, timeout=t, stream=True)\<close> gives (an error, or the sequence of what
  \<open>iter_content\<close> yields: the length of a chunk, or an error raised by the iterator), and
  the value of the \<open>k\<close>-th call of \<open>time.time()\<close>.
\<close>

record http_env =
  import_requests :: "error option"
  http_get :: "string \<Rightarrow> real \<Rightarrow> error + (error + nat) list"
  clock :: "nat \<Rightarrow> real"

text \<open>
  The \<open>for chunk in response.iter_content(...)\<close> loop. \<open>k\<close> counts the calls of
  \<open>time.time()\<close> made so far; the result is the number of bytes read and that count.
\<close>

fun read_chunks :: "http_env \<Rightarrow> real \<Rightarrow> (error + nat) list \<Rightarrow> nat \<Rightarrow> nat \<Rightarrow> error + (nat \<times> nat)" where
  "read_chunks env start_time [] data_downloaded k = Inr (data_downloaded, k)"
| "read_chunks env start_time (Inl e # rest) data_downloaded k = Inl e"
| "read_chunks env start_time (Inr n # rest) data_downloaded k =
     (let data_downloaded = data_downloaded + n in
      if clock env k - start_time > 5 then Inr (data_downloaded, Suc k)
      else read_chunks env start_time rest data_downloaded (Suc k))"

text \<open>The body of the \<open>try\<close> block of \<open>detect_bandwidth\<close>.\<close>

definition detect_bandwidth_try :: "http_env \<Rightarrow> string \<Rightarrow> real \<Rightarrow> error + pyfloat" where
  "detect_bandwidth_try env test_url timeout =
     (case import_requests env of
        Some e \<Rightarrow> Inl e
      | None \<Rightarrow>
         (let start_time = clock env 0 in
          case http_get env test_url timeout of
            Inl e \<Rightarrow> Inl e
          | Inr response \<Rightarrow>
             (case read_chunks env start_time response 0 1 of
                Inl e \<Rightarrow> Inl e
              | Inr (data_downloaded, k) \<Rightarrow>
                 (let elapsed_time = clock env k - start_time in
                  if elapsed_time = 0 then Inl ZeroDivisionError
                  else
                    (let bandwidth_bps = real data_downloaded / elapsed_time;
                         bandwidth_mbps = (bandwidth_bps * 8) / (1024 * 1024)
                     in Inr (Fin bandwidth_mbps))))))"

text \<open>\<open>detect_bandwidth\<close>: the \<open>try\<close> block with its \<open>except Exception\<close> handler.\<close>

definition detect_bandwidth :: "http_env \<Rightarrow> string \<Rightarrow> real \<Rightarrow> error + pyfloat" where
  "detect_bandwidth env test_url timeout =
     (case detect_bandwidth_try env test_url timeout of
        Inl e \<Rightarrow> Inr (Fin 10.0)
      | Inr bandwidth_mbps \<Rightarrow> Inr bandwidth_mbps)"

text \<open>The defaults of the parameters \<open>test_url\<close> and \<open>timeout\<close>.\<close>

definition default_test_url :: string where
  "default_test_url = ''http://www.google.com''"

definition default_bandwidth_timeout :: real where
  "default_bandwidth_timeout = 10"

section \<open>NetworkOptimizer: transfer profile\<close>

record retry_config =
  max_retries :: int
  backoff_factor :: real
  timeout :: int
  chunk_size :: int

text \<open>\<open>get_retry_config\<close>; the argument \<open>None\<close> is the parameter's default.\<close>

definition get_retry_config :: "pyfloat option \<Rightarrow> retry_config" where
  "get_retry_config bandwidth_mbps_opt =
     (let bandwidth_mbps = (case bandwidth_mbps_opt of None \<Rightarrow> Fin 10.0 | Some b \<Rightarrow> b) in
      if pf_less bandwidth_mbps (Fin 5) then
        \<lparr>max_retries = 5, backoff_factor = 2.0, timeout = 30, chunk_size = 1024 * 512\<rparr>
      else if pf_less bandwidth_mbps (Fin 25) then
        \<lparr>max_retries = 3, backoff_factor = 1.5, timeout = 20, chunk_size = 1024 * 1024 * 2\<rparr>
      else
        \<lparr>max_retries = 2, backoff_factor = 1.0, timeout = 15, chunk_size = 1024 * 1024 * 5\<rparr>)"

text \<open>
  \<open>get_optimal_concurrent_connections\<close>: with no bandwidth given it measures one; the
  conversion \<open>int(...)\<close> can raise.
\<close>

definition get_optimal_concurrent_connections :: "http_env \<Rightarrow> pyfloat option \<Rightarrow> error + int" where
  "get_optimal_concurrent_connections env bandwidth_mbps_opt =
     (case (case bandwidth_mbps_opt of
              None \<Rightarrow> detect_bandwidth env default_test_url default_bandwidth_timeout
            | Some b \<Rightarrow> Inr b) of
        Inl e \<Rightarrow> Inl e
      | Inr bandwidth_mbps \<Rightarrow>
         (case py_int (pf_div_const bandwidth_mbps 10) of
            Inl e \<Rightarrow> Inl e
          | Inr i \<Rightarrow> Inr (max 2 (min 16 (i + 2)))))"

text \<open>The clamp of the specification, as the specification words it.\<close>

definition clamp :: "int \<Rightarrow> int \<Rightarrow> int \<Rightarrow> int" where
  "clamp x lo hi = (if x < lo then lo else if hi < x then hi else x)"

section \<open>NetworkOptimizer: DNS probing\<close>

text \<open>
  The class attribute \<open>DNS_SERVERS\<close>, a dictionary, in its insertion order.
\<close>

definition DNS_SERVERS :: "(string \<times> string list) list" where
  "DNS_SERVERS =
     [(''cloudflare'', [''1.1.1.1'', ''1.0.0.1'']),
      (''google'', [''8.8.8.8'', ''8.8.4.4'']),
      (''quad9'', [''9.9.9.9'', ''149.112.112.112'']),
      (''opendns'', [''208.67.222.222'', ''208.67.220.220''])]"

text \<open>
  The environment of the probes. The \<open>n\<close>-th external call of a run (\<open>n\<close> counts both
  kinds) is answered by \<open>ping_run n\<close> for \<open>subprocess.run(cmd, capture_output=True,
  timeout=t)\<close>, with the return code of the process and the seconds between the two
  readings of the clock around it, and by \<open>gethostbyname n\<close> for
  \<open>socket.gethostbyname(domain)\<close> under the default timeout in force, with the seconds
  between the two readings of the clock around it.
\<close>

record net_env =
  os_name :: string
  ping_run :: "nat \<Rightarrow> string list \<Rightarrow> nat \<Rightarrow> error + (int \<times> real)"
  gethostbyname :: "nat \<Rightarrow> string \<Rightarrow> real option \<Rightarrow> error + real"

text \<open>
  The mutable state: the process-wide default timeout of the \<open>socket\<close> module (\<open>None\<close>
  for no timeout), the number of external calls made, and the attribute \<open>best_dns\<close>.
\<close>

record net_state =
  default_timeout :: "real option"
  calls :: nat
  best_dns :: "string option"

text \<open>\<open>str(n)\<close> for a non-negative integer.\<close>

definition digit_char :: "nat \<Rightarrow> char" where
  "digit_char d = char_of (48 + d)"

function str_nat :: "nat \<Rightarrow> string" where
  "str_nat n = (if n < 10 then [digit_char n] else str_nat (n div 10) @ [digit_char (n mod 10)])"
  by pat_completeness auto
termination
  by (relation "measure (\<lambda>n. n)") auto

text \<open>
  \<open>ping_dns_server\<close>. Every exception of the \<open>try\<close> block is caught.
\<close>

definition ping_dns_server :: "net_env \<Rightarrow> string \<Rightarrow> nat \<Rightarrow> net_state \<Rightarrow> pyfloat \<times> net_state" where
  "ping_dns_server env dns_ip tmo s =
     (let cmd = (if os_name env = ''windows''
                 then [''ping'', ''-n'', ''1'', ''-w'', str_nat (tmo * 1000), dns_ip]
                 else [''ping'', ''-c'', ''1'', ''-W'', str_nat tmo, dns_ip]);
          s' = s\<lparr>calls := Suc (calls s)\<rparr>
      in case ping_run env (calls s) cmd (tmo + 1) of
           Inl e \<Rightarrow> (PInf, s')
         | Inr (returncode, elapsed) \<Rightarrow>
             if returncode = 0 then (Fin (elapsed * 1000), s') else (PInf, s'))"

text \<open>
  \<open>socket.setdefaulttimeout\<close> accepts \<open>None\<close> and non-negative numbers and raises
  \<open>ValueError\<close> on a negative one, leaving the setting as it was.
\<close>

definition setdefaulttimeout :: "real option \<Rightarrow> net_state \<Rightarrow> error + net_state" where
  "setdefaulttimeout t s =
     (case t of
        None \<Rightarrow> Inr (s\<lparr>default_timeout := None\<rparr>)
      | Some x \<Rightarrow> if x < 0 then Inl ValueError else Inr (s\<lparr>default_timeout := Some x\<rparr>))"

text \<open>
  The \<open>try\<close> block of \<open>dns_lookup_test\<close>, after its first statement
  \<open>original_dns = socket.getdefaulttimeout()\<close>, which cannot fail. The parameter
  \<open>dns_server\<close> is not used by the source.
\<close>

definition dns_lookup_try ::
  "net_env \<Rightarrow> string \<Rightarrow> real \<Rightarrow> real option \<Rightarrow> net_state \<Rightarrow> (error + pyfloat) \<times> net_state" where
  "dns_lookup_try env test_domain tmo original_dns s =
     (case setdefaulttimeout (Some tmo) s of
        Inl e \<Rightarrow> (Inl e, s)
      | Inr s1 \<Rightarrow>
          (let s2 = s1\<lparr>calls := Suc (calls s1)\<rparr> in
           case gethostbyname env (calls s1) test_domain (default_timeout s1) of
             Inl e \<Rightarrow> (Inl e, s2)
           | Inr elapsed \<Rightarrow>
               (case setdefaulttimeout original_dns s2 of
                  Inl e \<Rightarrow> (Inl e, s2)
                | Inr s3 \<Rightarrow> (Inr (Fin (elapsed * 1000)), s3))))"

text \<open>
  \<open>dns_lookup_test\<close>: the handler restores the timeout and returns \<open>float('inf')\<close>; an
  exception raised inside the handler would reach the caller.
\<close>

definition dns_lookup_test ::
  "net_env \<Rightarrow> string \<Rightarrow> string \<Rightarrow> real \<Rightarrow> net_state \<Rightarrow> (error + pyfloat) \<times> net_state" where
  "dns_lookup_test env dns_server test_domain tmo s =
     (let original_dns = default_timeout s in
      case dns_lookup_try env test_domain tmo original_dns s of
        (Inr v, s') \<Rightarrow> (Inr v, s')
      | (Inl e, s') \<Rightarrow>
          (case setdefaulttimeout original_dns s' of
             Inl e' \<Rightarrow> (Inl e', s')
           | Inr s'' \<Rightarrow> (Inr PInf, s'')))"

text \<open>One entry of the dictionary \<open>results\<close>.\<close>

record probe_result =
  servers :: "string list"
  ping_time :: pyfloat
  avg_lookup_time :: pyfloat
  total_score :: pyfloat

text \<open>The inner loop over the test domains, which collects the finite lookup times.\<close>

fun lookup_domains ::
  "net_env \<Rightarrow> string \<Rightarrow> string list \<Rightarrow> pyfloat list \<Rightarrow> net_state \<Rightarrow> (error + pyfloat list) \<times> net_state" where
  "lookup_domains env server [] lookup_times s = (Inr lookup_times, s)"
| "lookup_domains env server (domain # rest) lookup_times s =
     (case dns_lookup_test env server domain 3 s of
        (Inl e, s') \<Rightarrow> (Inl e, s')
      | (Inr lookup_time, s') \<Rightarrow>
          lookup_domains env server rest
            (if \<not> pf_eq lookup_time PInf then lookup_times @ [lookup_time] else lookup_times) s')"

text \<open>\<open>sum(xs)\<close> starts from the integer 0 and adds from the left.\<close>

definition pf_sum :: "pyfloat list \<Rightarrow> pyfloat" where
  "pf_sum xs = foldl pf_add (Fin 0) xs"

text \<open>\<open>results[name] = value\<close> on a dictionary kept in insertion order.\<close>

fun dict_set :: "'k \<Rightarrow> 'v \<Rightarrow> ('k \<times> 'v) list \<Rightarrow> ('k \<times> 'v) list" where
  "dict_set k v [] = [(k, v)]"
| "dict_set k v (p # ps) = (if fst p = k then (k, v) # ps else p # dict_set k v ps)"

text \<open>
  The outer loop of \<open>benchmark_dns_servers\<close> over the items of \<open>DNS_SERVERS\<close>.
  \<open>servers[0]\<close> raises \<open>IndexError\<close> on an empty address list.
\<close>

fun measure_servers ::
  "net_env \<Rightarrow> string list \<Rightarrow> (string \<times> string list) list \<Rightarrow> (string \<times> probe_result) list \<Rightarrow>
   net_state \<Rightarrow> (error + (string \<times> probe_result) list) \<times> net_state" where
  "measure_servers env test_domains [] results s = (Inr results, s)"
| "measure_servers env test_domains ((name, srvs) # rest) results s =
     (case srvs of
        [] \<Rightarrow> (Inl IndexError, s)
      | server0 # _ \<Rightarrow>
          (let (ping, s1) = ping_dns_server env server0 3 s in
           case lookup_domains env server0 test_domains [] s1 of
             (Inl e, s2) \<Rightarrow> (Inl e, s2)
           | (Inr lookup_times, s2) \<Rightarrow>
               (let avg_lookup =
                      (if lookup_times \<noteq> []
                       then pf_div_const (pf_sum lookup_times) (real (length lookup_times))
                       else PInf)
                in measure_servers env test_domains rest
                     (dict_set name
                        \<lparr>servers = srvs, ping_time = ping, avg_lookup_time = avg_lookup,
                         total_score = pf_add ping avg_lookup\<rparr> results) s2)))"

text \<open>
  \<open>min(items, key=f)\<close> keeps the first item and replaces it by a later one only when the
  key of the later one is smaller; on an empty sequence it raises \<open>ValueError\<close>.
\<close>

fun min_from :: "('a \<Rightarrow> pyfloat) \<Rightarrow> 'a \<Rightarrow> 'a list \<Rightarrow> 'a" where
  "min_from key best [] = best"
| "min_from key best (x # xs) = min_from key (if pf_less (key x) (key best) then x else best) xs"

definition py_min :: "('a \<Rightarrow> pyfloat) \<Rightarrow> 'a list \<Rightarrow> error + 'a" where
  "py_min key xs = (case xs of [] \<Rightarrow> Inl ValueError | x # rest \<Rightarrow> Inr (min_from key x rest))"

text \<open>The selection that ends \<open>benchmark_dns_servers\<close>, from \<open>min\<close> on.\<close>

definition select_best_dns ::
  "(string \<times> probe_result) list \<Rightarrow> net_state \<Rightarrow> (error + (string \<times> string list) option) \<times> net_state" where
  "select_best_dns results s =
     (case py_min (\<lambda>x. total_score (snd x)) results of
        Inl e \<Rightarrow> (Inl e, s)
      | Inr best \<Rightarrow>
          if \<not> pf_eq (total_score (snd best)) PInf
          then (Inr (Some (fst best, servers (snd best))), s\<lparr>best_dns := Some (fst best)\<rparr>)
          else (Inr None, s))"

definition default_test_domains :: "string list" where
  "default_test_domains = [''www.youtube.com'', ''www.tiktok.com'', ''www.google.com'']"

definition benchmark_dns_servers ::
  "net_env \<Rightarrow> string list option \<Rightarrow> net_state \<Rightarrow> (error + (string \<times> string list) option) \<times> net_state" where
  "benchmark_dns_servers env test_domains_opt s =
     (let test_domains = (case test_domains_opt of None \<Rightarrow> default_test_domains | Some ds \<Rightarrow> ds) in
      case measure_servers env test_domains DNS_SERVERS [] s of
        (Inl e, s') \<Rightarrow> (Inl e, s')
      | (Inr results, s') \<Rightarrow> select_best_dns results s')"

section \<open>NetworkOptimizer: retry\<close>

text \<open>
  The operation passed to \<open>smart_retry\<close> is given by the outcome of its \<open>i\<close>-th
  invocation. The state counts the invocations and records the durations that
  \<open>time.sleep\<close> accepted.
\<close>

record retry_state =
  invocations :: nat
  sleeps :: "real list"

text \<open>The largest finite value of a Python \<open>float\<close>.\<close>

definition float_max :: real where
  "float_max = (2 ^ 53 - 1) * 2 ^ 971"

text \<open>
  \<open>x ** n\<close> for a float \<open>x\<close> and an integer \<open>n \<ge> 0\<close>. The power 0 of every float, a
  NaN too, is 1.0; a power of a finite float that is beyond the largest float raises
  \<open>OverflowError\<close>; the powers of an infinity are infinities.
\<close>

definition py_pow :: "pyfloat \<Rightarrow> nat \<Rightarrow> error + pyfloat" where
  "py_pow x n =
     (if n = 0 then Inr (Fin 1)
      else case x of
             Fin a \<Rightarrow> if float_max < \<bar>a ^ n\<bar> then Inl OverflowError else Inr (Fin (a ^ n))
           | PInf \<Rightarrow> Inr PInf
           | NInf \<Rightarrow> Inr (if even n then PInf else NInf)
           | NaN \<Rightarrow> Inr NaN)"

text \<open>
  \<open>time.sleep(secs)\<close> for a float. The argument is first converted to a signed 64-bit
  count of nanoseconds: a NaN raises \<open>ValueError\<close>, and an infinity or a value beyond
  that range \<open>OverflowError\<close>; then a negative duration raises \<open>ValueError\<close>.
\<close>

definition sleep :: "pyfloat \<Rightarrow> retry_state \<Rightarrow> error + retry_state" where
  "sleep secs s =
     (case secs of
        NaN \<Rightarrow> Inl ValueError
      | PInf \<Rightarrow> Inl OverflowError
      | NInf \<Rightarrow> Inl OverflowError
      | Fin d \<Rightarrow>
          if 2 ^ 63 < \<bar>d\<bar> * 10 ^ 9 then Inl OverflowError
          else if d < 0 then Inl ValueError
          else Inr (s\<lparr>sleeps := sleeps s @ [d]\<rparr>))"

text \<open>\<open>range(n)\<close> for an integer \<open>n\<close>: empty when \<open>n \<le> 0\<close>.\<close>

definition py_range :: "int \<Rightarrow> nat list" where
  "py_range n = [0..<nat n]"

text \<open>
  The \<open>for attempt in range(max_retries)\<close> loop of \<open>smart_retry\<close> over the attempts that
  remain. A result \<open>Inr (Some v)\<close> is the value the operation returned, \<open>Inr None\<close> the
  \<open>return None\<close> after the loop, \<open>Inl e\<close> an exception that reaches the caller: the
  failure of the last attempt, or what the power or \<open>time.sleep\<close> raises inside the
  handler.
\<close>

fun retry_loop ::
  "(nat \<Rightarrow> error + 'a) \<Rightarrow> int \<Rightarrow> pyfloat \<Rightarrow> nat list \<Rightarrow> retry_state \<Rightarrow> (error + 'a option) \<times> retry_state" where
  "retry_loop func maxr bf [] s = (Inr None, s)"
| "retry_loop func maxr bf (attempt # rest) s =
     (let s1 = s\<lparr>invocations := Suc (invocations s)\<rparr> in
      case func (invocations s) of
        Inr v \<Rightarrow> (Inr (Some v), s1)
      | Inl e \<Rightarrow>
          if int attempt = maxr - 1 then (Inl e, s1)
          else
            (case py_pow bf attempt of
               Inl e' \<Rightarrow> (Inl e', s1)
             | Inr wait_time \<Rightarrow>
                 (case sleep wait_time s1 of
                    Inl e' \<Rightarrow> (Inl e', s1)
                  | Inr s2 \<Rightarrow> retry_loop func maxr bf rest s2)))"

definition retry_start :: retry_state where
  "retry_start = \<lparr>invocations = 0, sleeps = []\<rparr>"

definition smart_retry ::
  "(nat \<Rightarrow> error + 'a) \<Rightarrow> int \<Rightarrow> pyfloat \<Rightarrow> (error + 'a option) \<times> retry_state" where
  "smart_retry func maxr bf = retry_loop func maxr bf (py_range maxr) retry_start"

section \<open>String operations of the tuner\<close>

text \<open>
  The ASCII characters that \<open>str.strip()\<close> and \<open>str.split()\<close> treat as white space.
  Python also strips the characters U+0085 and U+00A0, which lie outside ASCII; the
  strings of the model are ASCII.
\<close>

definition is_space :: "char \<Rightarrow> bool" where
  "is_space c = (c \<in> set [CHR '' '', CHR 0x09, CHR 0x0A, CHR 0x0B, CHR 0x0C, CHR 0x0D,
                            CHR 0x1C, CHR 0x1D, CHR 0x1E, CHR 0x1F])"

definition strip :: "string \<Rightarrow> string" where
  "strip s = rev (dropWhile is_space (rev (dropWhile is_space s)))"

text \<open>\<open>s.split(c)\<close> for a separator of one character.\<close>

fun split_char :: "char \<Rightarrow> string \<Rightarrow> string list" where
  "split_char c [] = [[]]"
| "split_char c (x # xs) =
     (if x = c then [] # split_char c xs
      else (case split_char c xs of [] \<Rightarrow> [[x]] | w # ws \<Rightarrow> (x # w) # ws))"

text \<open>\<open>s.split()\<close>: the maximal runs of characters that are not white space.\<close>

fun split_ws :: "string \<Rightarrow> string \<Rightarrow> string list" where
  "split_ws word [] = (if word = [] then [] else [word])"
| "split_ws word (x # xs) =
     (if is_space x then (if word = [] then split_ws [] xs else word # split_ws [] xs)
      else split_ws (word @ [x]) xs)"

fun starts_with :: "string \<Rightarrow> string \<Rightarrow> bool" where
  "starts_with [] s = True"
| "starts_with (p # ps) [] = False"
| "starts_with (p # ps) (x # xs) = (p = x \<and> starts_with ps xs)"

text \<open>\<open>p in s\<close> for strings.\<close>

fun contains :: "string \<Rightarrow> string \<Rightarrow> bool" where
  "contains p [] = (p = [])"
| "contains p (x # xs) = (starts_with p (x # xs) \<or> contains p xs)"

section \<open>SystemNetworkTuner\<close>

text \<open>What \<open>subprocess.run\<close> returns when it returns.\<close>

record completed =
  returncode :: int
  stdout :: string
  stderr :: string

text \<open>
  The environment of the tuner: the operating system name, the effective user id,
  what \<open>ctypes.windll.shell32.IsUserAnAdmin()\<close> gives (an error also when \<open>ctypes\<close> has
  no \<open>windll\<close>), the outcome of the \<open>n\<close>-th run of a command by \<open>subprocess.run\<close>, and the
  outcome of opening a file for writing and writing lines to it.
\<close>

record sys_env =
  os_type :: string
  geteuid :: nat
  IsUserAnAdmin :: "error + int"
  proc_run :: "nat \<Rightarrow> string list \<Rightarrow> error + completed"
  file_write :: "string \<Rightarrow> string list \<Rightarrow> error option"

text \<open>
  What the tuner writes to standard output: a \<open>print\<close>, or a \<open>log_time\<close> (whose time stamp
  is left out). The three messages that carry a check mark or a cross have their own
  constructors.
\<close>

datatype out_line =
    Print string
  | Log string
  | LogExc string error
  | LogSuccess
  | LogFailed string
  | LogTimeout

text \<open>
  The effects of the tuner: the argument vectors given to \<open>subprocess.run\<close>, in order;
  the files written; the lines put out.
\<close>

record sys_state =
  executed :: "string list list"
  written :: "(string \<times> string list) list"
  out_lines :: "out_line list"

definition put :: "out_line \<Rightarrow> sys_state \<Rightarrow> sys_state" where
  "put l s = s\<lparr>out_lines := out_lines s @ [l]\<rparr>"

text \<open>One call of \<open>subprocess.run\<close>: the command is recorded, the environment answers.\<close>

definition run_process :: "sys_env \<Rightarrow> string list \<Rightarrow> sys_state \<Rightarrow> (error + completed) \<times> sys_state" where
  "run_process env argv s = (proc_run env (length (executed s)) argv, s\<lparr>executed := executed s @ [argv]\<rparr>)"

text \<open>
  \<open>check_root_privileges\<close>, as the truth value of what it returns (on Windows the
  source returns the integer of \<open>IsUserAnAdmin\<close>); the bare \<open>except\<close> gives \<open>False\<close>.
\<close>

definition check_root_privileges :: "sys_env \<Rightarrow> bool" where
  "check_root_privileges env =
     (if os_type env = ''windows''
      then (case IsUserAnAdmin env of Inl e \<Rightarrow> False | Inr r \<Rightarrow> r \<noteq> 0)
      else geteuid env = 0)"

definition bbr_query :: "string list" where
  "bbr_query = [''sysctl'', ''net.ipv4.tcp_available_congestion_control'']"

text \<open>
  \<open>is_bbr_available\<close>. The index \<open>[1]\<close> raises \<open>IndexError\<close> when the output has no
  \<open>=\<close>; the handler logs every exception and the function returns \<open>False\<close>.
\<close>

definition is_bbr_available :: "sys_env \<Rightarrow> sys_state \<Rightarrow> bool \<times> sys_state" where
  "is_bbr_available env s =
     (if os_type env = ''linux'' then
        (case run_process env bbr_query s of
           (Inl e, s1) \<Rightarrow> (False, put (LogExc ''Failed to check BBR availability: '' e) s1)
         | (Inr result, s1) \<Rightarrow>
             if returncode result = 0 then
               (case split_char (CHR ''='') (strip (stdout result)) of
                  f0 # f1 # fs \<Rightarrow> (contains ''bbr'' (strip f1), s1)
                | _ \<Rightarrow> (False, put (LogExc ''Failed to check BBR availability: '' IndexError) s1))
             else (False, s1))
      else (False, s))"

definition linux_commands :: "string list" where
  \<open>linux_commands =
     [''sysctl -w net.core.rmem_max=134217728'',
      ''sysctl -w net.core.wmem_max=134217728'',
      ''sysctl -w net.ipv4.tcp_rmem="4096 87380 134217728"'',
      ''sysctl -w net.ipv4.tcp_wmem="4096 65536 134217728"'',
      ''sysctl -w net.core.netdev_max_backlog=5000'',
      ''sysctl -w net.core.somaxconn=1024'',
      ''sysctl -w net.ipv4.tcp_window_scaling=1'',
      ''sysctl -w net.ipv4.tcp_timestamps=1'',
      ''sysctl -w net.ipv4.tcp_sack=1'',
      ''sysctl -w net.ipv4.tcp_no_metrics_save=1'',
      ''sysctl -w net.ipv4.tcp_syn_retries=3'',
      ''sysctl -w net.ipv4.tcp_synack_retries=3'',
      ''sysctl -w net.ipv4.tcp_retries2=8'']\<close>

definition bbr_commands :: "string list" where
  "bbr_commands =
     [''sysctl -w net.ipv4.tcp_congestion_control=bbr'',
      ''sysctl -w net.core.default_qdisc=fq'']"

definition darwin_commands :: "string list" where
  "darwin_commands =
     [''sysctl -w kern.ipc.maxsockbuf=16777216'',
      ''sysctl -w net.inet.tcp.sendspace=1048576'',
      ''sysctl -w net.inet.tcp.recvspace=1048576'']"

definition windows_commands :: "string list" where
  "windows_commands =
     [''netsh int tcp set global autotuninglevel=normal'',
      ''netsh int tcp set global chimney=enabled'',
      ''netsh int tcp set global rss=enabled'',
      ''netsh int tcp set global netdma=enabled'',
      ''netsh int tcp set global initialrto=1000'',
      ''netsh int tcp set global maxsynretransmissions=4'']"

definition get_network_optimization_commands :: "sys_env \<Rightarrow> sys_state \<Rightarrow> string list \<times> sys_state" where
  "get_network_optimization_commands env s =
     (if os_type env = ''linux'' then
        (let (bbr, s1) = is_bbr_available env s in
         (if bbr then linux_commands @ bbr_commands else linux_commands, s1))
      else if os_type env = ''darwin'' then (darwin_commands, s)
      else if os_type env = ''windows'' then (windows_commands, s)
      else ([], s))"

text \<open>
  The loop of \<open>apply_optimizations\<close> that executes the commands, with the running
  \<open>success_count\<close>.
\<close>

fun run_commands :: "sys_env \<Rightarrow> string list \<Rightarrow> nat \<Rightarrow> sys_state \<Rightarrow> nat \<times> sys_state" where
  "run_commands env [] success_count s = (success_count, s)"
| "run_commands env (cmd # rest) success_count s =
     (case run_process env (split_ws [] cmd) (put (Log (''Executing: '' @ cmd)) s) of
        (Inl TimeoutExpired, s1) \<Rightarrow> run_commands env rest success_count (put LogTimeout s1)
      | (Inl e, s1) \<Rightarrow> run_commands env rest success_count (put (LogExc ''Error: '' e) s1)
      | (Inr result, s1) \<Rightarrow>
          if returncode result = 0
          then run_commands env rest (Suc success_count) (put LogSuccess s1)
          else run_commands env rest success_count (put (LogFailed (strip (stderr result))) s1))"

definition apply_optimizations :: "sys_env \<Rightarrow> bool \<Rightarrow> sys_state \<Rightarrow> bool \<times> sys_state" where
  "apply_optimizations env dry_run s =
     (let s0 = put (Log ''Starting system network optimization'') s in
      if \<not> dry_run \<and> \<not> check_root_privileges env then
        (False,
         put (Log ''Run with 'sudo' on Linux/macOS or as Administrator on Windows'')
           (put (Log ''ERROR: Root/Administrator privileges required for system tuning'') s0))
      else
        (let (commands, s1) = get_network_optimization_commands env s0 in
         if dry_run then
           (True, foldl (\<lambda>st cmd. put (Print (''  '' @ cmd)) st)
                    (put (Log ''DRY RUN - Commands that would be executed:'') s1) commands)
         else
           (let (success_count, s2) = run_commands env commands 0 s1 in
            (0 < success_count,
             put (Log (''Applied '' @ str_nat success_count @ ''/'' @ str_nat (length commands) @
                       '' network optimizations'')) s2))))"

definition config_file :: string where
  "config_file = ''/etc/sysctl.d/99-network-optimization.conf''"

text \<open>The text written by \<open>create_persistent_config\<close>, line by line.\<close>

definition config_content :: "string list" where
  "config_content =
     [''# Network optimization for video upload/download'',
      ''# Generated by TikTok uploader'',
      [],
      ''# TCP buffer sizes'',
      ''net.core.rmem_max = 134217728'',
      ''net.core.wmem_max = 134217728'',
      ''net.ipv4.tcp_rmem = 4096 87380 134217728'',
      ''net.ipv4.tcp_wmem = 4096 65536 134217728'',
      [],
      ''# Connection optimizations'',
      ''net.core.netdev_max_backlog = 5000'',
      ''net.core.somaxconn = 1024'',
      [],
      ''# TCP optimizations'',
      ''net.ipv4.tcp_window_scaling = 1'',
      ''net.ipv4.tcp_timestamps = 1'',
      ''net.ipv4.tcp_sack = 1'',
      ''net.ipv4.tcp_no_metrics_save = 1'',
      [],
      ''# Faster recovery'',
      ''net.ipv4.tcp_syn_retries = 3'',
      ''net.ipv4.tcp_synack_retries = 3'',
      ''net.ipv4.tcp_retries2 = 8'',
      [],
      ''# BBR congestion control (if available)'',
      ''net.ipv4.tcp_congestion_control = bbr'',
      ''net.core.default_qdisc = fq'']"

definition create_persistent_config :: "sys_env \<Rightarrow> sys_state \<Rightarrow> bool \<times> sys_state" where
  "create_persistent_config env s =
     (if os_type env = ''linux'' then
        (case file_write env config_file config_content of
           Some e \<Rightarrow> (False, put (LogExc ''Failed to create persistent config: '' e) s)
         | None \<Rightarrow>
             (True,
              put (Log ''Changes will persist after reboot'')
                (put (Log (''Created persistent config: '' @ config_file))
                   (s\<lparr>written := written s @ [(config_file, config_content)]\<rparr>))))
      else (False, put (Log ''Persistent configuration not implemented for this OS'') s))"

section \<open>The tune action of the command line\<close>

text \<open>The two flags of the \<open>upload\<close> subcommand that the tune action reads.\<close>

record tune_flags =
  tune_system :: bool
  tune_dry_run :: bool

text \<open>
  The \<open>System tuning\<close> block of the main program. \<open>Some c\<close> is \<open>sys.exit(c)\<close>; \<open>None\<close> means
  that the block is skipped and the program goes on to the upload.
\<close>

definition tune_action :: "sys_env \<Rightarrow> tune_flags \<Rightarrow> sys_state \<Rightarrow> int option \<times> sys_state" where
  "tune_action env args s =
     (if tune_system args \<or> tune_dry_run args then
        (let dry_run = tune_dry_run args;
             (applied, s1) = apply_optimizations env dry_run s;
             s2 = (if \<not> dry_run then snd (create_persistent_config env s1) else s1)
         in (Some 0, s2))
      else (None, s))"

section \<open>Auxiliary predicates and concrete environments\<close>

text \<open>
  The values that \<open>socket.setdefaulttimeout\<close> accepts, which are the only ones that the
  default timeout of the process can hold.
\<close>

definition timeout_ok :: "real option \<Rightarrow> bool" where
  "timeout_ok t = (case t of None \<Rightarrow> True | Some x \<Rightarrow> 0 \<le> x)"

text \<open>A score that is a finite number or plus infinity.\<close>

fun latency :: "pyfloat \<Rightarrow> bool" where
  "latency (Fin r) = True"
| "latency PInf = True"
| "latency NInf = False"
| "latency NaN = False"


text \<open>A network where every connection is refused; the clock advances by one second per reading.\<close>

definition env_refused :: http_env where
  "env_refused =
     \<lparr>import_requests = None,
      http_get = (\<lambda>url t. Inl (OtherError ''ConnectionError'')),
      clock = (\<lambda>k. real k)\<rparr>"

text \<open>A response whose body breaks after two chunks.\<close>

definition env_broken_stream :: http_env where
  "env_broken_stream =
     \<lparr>import_requests = None,
      http_get = (\<lambda>url t. Inr [Inr 8192, Inr 8192, Inl (OtherError ''ChunkedEncodingError'')]),
      clock = (\<lambda>k. real k)\<rparr>"

text \<open>An interpreter without the \<open>requests\<close> package.\<close>

definition env_no_requests :: http_env where
  "env_no_requests =
     \<lparr>import_requests = Some ImportError,
      http_get = (\<lambda>url t. Inr []),
      clock = (\<lambda>k. real k)\<rparr>"

text \<open>
  A host where the first two name resolutions fail and the later ones take 20 ms, and
  where the first ping gets no answer and a later one, made as the \<open>n\<close>-th external
  call, takes \<open>n\<close> ms.
\<close>

definition env_flaky_dns :: net_env where
  "env_flaky_dns =
     \<lparr>os_name = ''linux'',
      ping_run = (\<lambda>n cmd t. if n = 0 then Inr (1, 3) else Inr (0, real n / 1000)),
      gethostbyname = (\<lambda>n domain t. if n < 3 then Inl (OtherError ''gaierror'') else Inr (2 / 100))\<rparr>"

text \<open>A host without any network: no ping is answered and no name resolves.\<close>

definition env_offline :: net_env where
  "env_offline =
     \<lparr>os_name = ''linux'',
      ping_run = (\<lambda>n cmd t. Inl TimeoutExpired),
      gethostbyname = (\<lambda>n domain t. Inl (OtherError ''gaierror''))\<rparr>"

text \<open>The state of a fresh \<open>NetworkOptimizer\<close> in a process that set no socket timeout.\<close>

definition net_start :: net_state where
  "net_start = \<lparr>default_timeout = None, calls = 0, best_dns = None\<rparr>"

text \<open>
  An operation that fails twice and then returns 42, and one that always fails: its
  first invocation times out and the later ones are refused.
\<close>

definition fails_twice :: "nat \<Rightarrow> error + nat" where
  "fails_twice i = (if i < 2 then Inl (OtherError ''ConnectionError'') else Inr 42)"

definition always_fails :: "nat \<Rightarrow> error + nat" where
  "always_fails i = Inl (if i = 0 then TimeoutExpired else OtherError ''ConnectionRefusedError'')"

text \<open>
  A Linux host with BBR on which the program runs as the unprivileged user 1000, who
  cannot write below \<open>/etc\<close>.
\<close>

definition linux_user :: sys_env where
  "linux_user =
     \<lparr>os_type = ''linux'',
      geteuid = 1000,
      IsUserAnAdmin = Inl (OtherError ''AttributeError''),
      proc_run = (\<lambda>n argv. Inr \<lparr>returncode = 0,
                     stdout = ''net.ipv4.tcp_available_congestion_control = reno cubic bbr'',
                     stderr = []\<rparr>),
      file_write = (\<lambda>path content. Some (OtherError ''PermissionError''))\<rparr>"

text \<open>A macOS host, where no tuning command needs a query first.\<close>

definition darwin_user :: sys_env where
  "darwin_user = linux_user\<lparr>os_type := ''darwin''\<rparr>"

definition sys_start :: sys_state where
  "sys_start = \<lparr>executed = [], written = [], out_lines = []\<rparr>"

text \<open>What \<open>apply_optimizations\<close> leaves behind when the privilege is missing: three log lines.\<close>

definition denied :: "sys_state \<Rightarrow> sys_state" where
  "denied s =
     s\<lparr>out_lines := out_lines s @
        [Log ''Starting system network optimization'',
         Log ''ERROR: Root/Administrator privileges required for system tuning'',
         Log ''Run with 'sudo' on Linux/macOS or as Administrator on Windows'']\<rparr>"

section \<open>Transfer profile: theorems\<close>

text \<open>
  C1. For every bandwidth value \<open>b\<close>, \<open>get_retry_config(b)\<close> is the tier table with
  boundaries at 5 and 25: below 5 it is (5, 2.0, 30, 512 KiB); from 5 inclusive to 25
  exclusive it is (3, 1.5, 20, 2 MiB); from 25 inclusive it is (2, 1.0, 15, 5 MiB). The
  value 5 falls into the middle tier and 25 into the top tier; nothing is interpolated.
\<close>

theorem get_retry_config_tiers:
  "(pf_less b (Fin 5) \<longrightarrow>
      get_retry_config (Some b) =
        \<lparr>max_retries = 5, backoff_factor = 2, timeout = 30, chunk_size = 512 * 1024\<rparr>) \<and>
   (pf_le (Fin 5) b \<and> pf_less b (Fin 25) \<longrightarrow>
      get_retry_config (Some b) =
        \<lparr>max_retries = 3, backoff_factor = 3 / 2, timeout = 20, chunk_size = 2 * 1024 * 1024\<rparr>) \<and>
   (pf_le (Fin 25) b \<longrightarrow>
      get_retry_config (Some b) =
        \<lparr>max_retries = 2, backoff_factor = 1, timeout = 15, chunk_size = 5 * 1024 * 1024\<rparr>)"
  by (cases b) (auto simp: get_retry_config_def pf_le_def)

theorem get_retry_config_tiers_witness:
  "pf_less (Fin 3.2) (Fin 5) \<and>
   get_retry_config (Some (Fin 3.2)) =
     \<lparr>max_retries = 5, backoff_factor = 2, timeout = 30, chunk_size = 512 * 1024\<rparr> \<and>
   pf_le (Fin 5) (Fin 5) \<and> pf_less (Fin 5) (Fin 25) \<and>
   get_retry_config (Some (Fin 5)) =
     \<lparr>max_retries = 3, backoff_factor = 3 / 2, timeout = 20, chunk_size = 2 * 1024 * 1024\<rparr> \<and>
   pf_le (Fin 25) (Fin 25) \<and>
   get_retry_config (Some (Fin 25)) =
     \<lparr>max_retries = 2, backoff_factor = 1, timeout = 15, chunk_size = 5 * 1024 * 1024\<rparr> \<and>
   pf_le (Fin 25) PInf \<and>
   get_retry_config (Some PInf) =
     \<lparr>max_retries = 2, backoff_factor = 1, timeout = 15, chunk_size = 5 * 1024 * 1024\<rparr>"
  using get_retry_config_tiers [of "Fin 3.2"] get_retry_config_tiers [of "Fin 5"]
    get_retry_config_tiers [of "Fin 25"] get_retry_config_tiers [of PInf]
  by (simp add: pf_le_def)

text \<open>
  C2. For every finite bandwidth \<open>b \<ge> 0\<close> supplied by the caller,
  \<open>get_optimal_concurrent_connections(b)\<close> is \<open>clamp(floor(b / 10) + 2, 2, 16)\<close>, and the
  result lies between 2 and 16.
\<close>

theorem get_optimal_concurrent_connections_clamp:
  assumes "0 \<le> b"
  shows "get_optimal_concurrent_connections env (Some (Fin b)) = Inr (clamp (\<lfloor>b / 10\<rfloor> + 2) 2 16) \<and>
         2 \<le> clamp (\<lfloor>b / 10\<rfloor> + 2) 2 16 \<and> clamp (\<lfloor>b / 10\<rfloor> + 2) 2 16 \<le> 16"
  using assms by (simp add: get_optimal_concurrent_connections_def trunc_def clamp_def)

theorem get_optimal_concurrent_connections_clamp_witness:
  "(0::real) \<le> 52 \<and>
   get_optimal_concurrent_connections env_refused (Some (Fin 52)) = Inr 7 \<and>
   clamp (\<lfloor>(52::real) / 10\<rfloor> + 2) 2 16 = 7"
proof -
  have f: "\<lfloor>(52::real) / 10\<rfloor> = 5" by (simp add: floor_eq_iff)
  have c: "clamp (\<lfloor>(52::real) / 10\<rfloor> + 2) 2 16 = 7" by (simp add: f clamp_def)
  show ?thesis
    using get_optimal_concurrent_connections_clamp [of 52 env_refused] c by simp
qed

section \<open>Bandwidth detection: theorems\<close>

lemma read_chunks_breaks:
  assumes "\<forall>i<length ns. clock env (k + i) - start \<le> 5"
  shows "read_chunks env start (map Inr ns @ Inl e # rest) d k = Inl e"
  using assms
proof (induction ns arbitrary: d k)
  case Nil
  then show ?case by simp
next
  case (Cons n ns)
  have here: "\<not> clock env k - start > 5"
    using Cons.prems by fastforce
  have later: "\<forall>i<length ns. clock env (Suc k + i) - start \<le> 5"
    using Cons.prems by fastforce
  show ?case
    using here Cons.IH [OF later] by simp
qed

lemma detect_bandwidth_handler:
  "detect_bandwidth_try env url t = Inl e \<Longrightarrow> detect_bandwidth env url t = Inr (Fin 10)"
  by (simp add: detect_bandwidth_def)

text \<open>
  C7. For every test URL and every failure of the HTTP stream (the import of the
  client, the connection, the body while it is read, or any other exception raised in
  the measurement), \<open>detect_bandwidth\<close> returns the fallback 10.0 and never raises.
\<close>

theorem detect_bandwidth_never_raises:
  "(\<exists>v. detect_bandwidth env url t = Inr v) \<and>
   (\<forall>e. import_requests env = Some e \<longrightarrow> detect_bandwidth env url t = Inr (Fin 10)) \<and>
   (\<forall>e. http_get env url t = Inl e \<longrightarrow> detect_bandwidth env url t = Inr (Fin 10)) \<and>
   (\<forall>ns e rest.
      http_get env url t = Inr (map Inr ns @ Inl e # rest) \<and>
      (\<forall>i<length ns. clock env (Suc i) - clock env 0 \<le> 5) \<longrightarrow>
      detect_bandwidth env url t = Inr (Fin 10)) \<and>
   (\<forall>e. detect_bandwidth_try env url t = Inl e \<longrightarrow> detect_bandwidth env url t = Inr (Fin 10))"
proof (intro conjI allI impI)
  show "\<exists>v. detect_bandwidth env url t = Inr v"
    by (cases "detect_bandwidth_try env url t") (simp_all add: detect_bandwidth_def)
next
  fix e assume "import_requests env = Some e"
  then have "detect_bandwidth_try env url t = Inl e"
    by (simp add: detect_bandwidth_try_def)
  then show "detect_bandwidth env url t = Inr (Fin 10)"
    by (rule detect_bandwidth_handler)
next
  fix e assume get: "http_get env url t = Inl e"
  have "\<exists>e'. detect_bandwidth_try env url t = Inl e'"
    using get by (cases "import_requests env") (simp_all add: detect_bandwidth_try_def)
  then show "detect_bandwidth env url t = Inr (Fin 10)"
    by (auto dest: detect_bandwidth_handler)
next
  fix ns e rest
  assume a: "http_get env url t = Inr (map Inr ns @ Inl e # rest) \<and>
             (\<forall>i<length ns. clock env (Suc i) - clock env 0 \<le> 5)"
  then have "\<forall>i<length ns. clock env (1 + i) - clock env 0 \<le> 5" by simp
  then have "read_chunks env (clock env 0) (map Inr ns @ Inl e # rest) 0 1 = Inl e"
    by (rule read_chunks_breaks)
  then have "\<exists>e'. detect_bandwidth_try env url t = Inl e'"
    using a by (cases "import_requests env") (simp_all add: detect_bandwidth_try_def)
  then show "detect_bandwidth env url t = Inr (Fin 10)"
    by (auto dest: detect_bandwidth_handler)
next
  fix e assume "detect_bandwidth_try env url t = Inl e"
  then show "detect_bandwidth env url t = Inr (Fin 10)"
    by (rule detect_bandwidth_handler)
qed

theorem detect_bandwidth_never_raises_witness:
  "import_requests env_no_requests = Some ImportError \<and>
   detect_bandwidth env_no_requests default_test_url 10 = Inr (Fin 10) \<and>
   http_get env_refused default_test_url 10 = Inl (OtherError ''ConnectionError'') \<and>
   detect_bandwidth env_refused default_test_url 10 = Inr (Fin 10) \<and>
   http_get env_broken_stream default_test_url 10 =
     Inr (map Inr [8192, 8192] @ Inl (OtherError ''ChunkedEncodingError'') # []) \<and>
   detect_bandwidth env_broken_stream default_test_url 10 = Inr (Fin 10)"
proof -
  have i: "import_requests env_no_requests = Some ImportError"
    by (simp add: env_no_requests_def)
  have g: "http_get env_refused default_test_url 10 = Inl (OtherError ''ConnectionError'')"
    by (simp add: env_refused_def)
  have b: "http_get env_broken_stream default_test_url 10 =
             Inr (map Inr [8192, 8192] @ Inl (OtherError ''ChunkedEncodingError'') # [])"
    by (simp add: env_broken_stream_def)
  have c: "\<forall>i<length [8192::nat, 8192]. clock env_broken_stream (Suc i) - clock env_broken_stream 0 \<le> 5"
    by (simp add: env_broken_stream_def)
  from detect_bandwidth_never_raises [of env_no_requests default_test_url 10] i
  have r1: "detect_bandwidth env_no_requests default_test_url 10 = Inr (Fin 10)" by blast
  from detect_bandwidth_never_raises [of env_refused default_test_url 10] g
  have r2: "detect_bandwidth env_refused default_test_url 10 = Inr (Fin 10)" by blast
  from detect_bandwidth_never_raises [of env_broken_stream default_test_url 10] b c
  have r3: "detect_bandwidth env_broken_stream default_test_url 10 = Inr (Fin 10)" by blast
  from i g b r1 r2 r3 show ?thesis by blast
qed

section \<open>DNS lookup test: theorems\<close>

lemma setdefaulttimeout_ok:
  "timeout_ok t \<Longrightarrow> setdefaulttimeout t s = Inr (s\<lparr>default_timeout := t\<rparr>)"
  by (cases t) (auto simp: setdefaulttimeout_def timeout_ok_def)

lemma setdefaulttimeout_raises:
  "setdefaulttimeout t s = Inl e \<Longrightarrow> \<not> timeout_ok t"
  by (cases t) (auto simp: setdefaulttimeout_def timeout_ok_def split: if_splits)

text \<open>
  What \<open>dns_lookup_test\<close> does in each case: an override that is refused, a lookup
  that fails under the override, a lookup that succeeds under it.
\<close>

lemma dns_lookup_test_cases:
  assumes ok: "timeout_ok (default_timeout s)"
  shows "dns_lookup_test env srv domain tmo s =
           (if tmo < 0 then (Inr PInf, s)
            else case gethostbyname env (calls s) domain (Some tmo) of
                   Inl e \<Rightarrow> (Inr PInf, s\<lparr>calls := Suc (calls s)\<rparr>)
                 | Inr elapsed \<Rightarrow> (Inr (Fin (elapsed * 1000)), s\<lparr>calls := Suc (calls s)\<rparr>))"
proof (cases "tmo < 0")
  case True
  then have "dns_lookup_try env domain tmo (default_timeout s) s = (Inl ValueError, s)"
    by (simp add: dns_lookup_try_def setdefaulttimeout_def)
  then show ?thesis
    using True by (simp add: dns_lookup_test_def setdefaulttimeout_ok [OF ok])
next
  case False
  then have set1: "setdefaulttimeout (Some tmo) s = Inr (s\<lparr>default_timeout := Some tmo\<rparr>)"
    by (simp add: setdefaulttimeout_def)
  show ?thesis
  proof (cases "gethostbyname env (calls s) domain (Some tmo)")
    case (Inl e)
    then have "dns_lookup_try env domain tmo (default_timeout s) s =
                 (Inl e, s\<lparr>default_timeout := Some tmo, calls := Suc (calls s)\<rparr>)"
      by (simp add: dns_lookup_try_def set1)
    then show ?thesis
      using False Inl by (simp add: dns_lookup_test_def setdefaulttimeout_ok [OF ok])
  next
    case (Inr elapsed)
    then have "dns_lookup_try env domain tmo (default_timeout s) s =
                 (Inr (Fin (elapsed * 1000)), s\<lparr>calls := Suc (calls s)\<rparr>)"
      by (simp add: dns_lookup_try_def set1 setdefaulttimeout_ok [OF ok])
    then show ?thesis
      using False Inr by (simp add: dns_lookup_test_def)
  qed
qed



section \<open>DNS benchmark: theorems\<close>

lemma latency_cases: "latency x \<Longrightarrow> x = PInf \<or> (\<exists>r. x = Fin r)"
  by (cases x) auto

lemma pf_le_total: "latency a \<Longrightarrow> latency b \<Longrightarrow> \<not> pf_less a b \<Longrightarrow> pf_le b a"
  by (cases a; cases b) (auto simp: pf_le_def)

lemma pf_le_refl: "latency a \<Longrightarrow> pf_le a a"
  by (cases a) (auto simp: pf_le_def)

lemma pf_le_trans: "pf_le a b \<Longrightarrow> pf_le b c \<Longrightarrow> pf_le a c"
  by (cases a; cases b; cases c) (auto simp: pf_le_def)

lemma pf_less_le: "pf_less a b \<Longrightarrow> pf_le a b"
  by (simp add: pf_le_def)

lemma pf_le_PInf: "latency a \<Longrightarrow> pf_le PInf a \<Longrightarrow> a = PInf"
  by (cases a) (auto simp: pf_le_def)

lemma latency_add: "latency a \<Longrightarrow> latency b \<Longrightarrow> latency (pf_add a b)"
  by (cases a; cases b) auto

text \<open>The first minimum: \<open>min_from\<close> returns an element that no other element is below.\<close>

lemma min_from_least:
  assumes "\<forall>x\<in>set (b # xs). latency (key x)"
  shows "min_from key b xs \<in> set (b # xs) \<and>
         (\<forall>x\<in>set (b # xs). pf_le (key (min_from key b xs)) (key x))"
  using assms
proof (induction xs arbitrary: b)
  case Nil
  then show ?case by (simp add: pf_le_refl)
next
  case (Cons y ys)
  let ?b' = "if pf_less (key y) (key b) then y else b"
  have lat: "\<forall>x\<in>set (?b' # ys). latency (key x)"
    using Cons.prems by auto
  have ih: "min_from key ?b' ys \<in> set (?b' # ys) \<and>
            (\<forall>x\<in>set (?b' # ys). pf_le (key (min_from key ?b' ys)) (key x))"
    by (rule Cons.IH [OF lat])
  have below: "pf_le (key ?b') (key b) \<and> pf_le (key ?b') (key y)"
    using Cons.prems by (auto intro: pf_less_le pf_le_refl pf_le_total)
  have m: "pf_le (key (min_from key ?b' ys)) (key ?b')"
    using ih by simp
  have "pf_le (key (min_from key ?b' ys)) (key b)" "pf_le (key (min_from key ?b' ys)) (key y)"
    using m below by (blast intro: pf_le_trans)+
  moreover have "min_from key ?b' ys \<in> set (b # y # ys)"
    using ih by (auto split: if_splits)
  ultimately show ?case
    using ih by auto
qed

lemma ping_dns_server_latency:
  "latency (fst (ping_dns_server env ip tmo s)) \<and>
   default_timeout (snd (ping_dns_server env ip tmo s)) = default_timeout s"
proof (cases "ping_run env (calls s)
                (if os_name env = ''windows''
                 then [''ping'', ''-n'', ''1'', ''-w'', str_nat (tmo * 1000), ip]
                 else [''ping'', ''-c'', ''1'', ''-W'', str_nat tmo, ip]) (tmo + 1)")
  case (Inl e)
  then show ?thesis by (simp add: ping_dns_server_def Let_def)
next
  case (Inr r)
  then show ?thesis by (cases r) (simp add: ping_dns_server_def Let_def)
qed

lemma lookup_domains_finite:
  assumes "timeout_ok (default_timeout s)" and "\<forall>t\<in>set lts. \<exists>r. t = Fin r"
  shows "\<exists>lts' s'. lookup_domains env srv domains lts s = (Inr lts', s') \<and>
           (\<forall>t\<in>set lts'. \<exists>r. t = Fin r) \<and> default_timeout s' = default_timeout s"
  using assms
proof (induction domains arbitrary: lts s)
  case Nil
  then show ?case by simp
next
  case (Cons d ds)
  let ?s' = "s\<lparr>calls := Suc (calls s)\<rparr>"
  have ok': "timeout_ok (default_timeout ?s')"
    using Cons.prems(1) by simp
  show ?case
  proof (cases "gethostbyname env (calls s) d (Some 3)")
    case (Inl e)
    then have step: "dns_lookup_test env srv d 3 s = (Inr PInf, ?s')"
      by (simp add: dns_lookup_test_cases [OF Cons.prems(1)])
    from Cons.IH [OF ok' Cons.prems(2)] show ?thesis
      by (simp add: step)
  next
    case (Inr elapsed)
    then have step: "dns_lookup_test env srv d 3 s = (Inr (Fin (elapsed * 1000)), ?s')"
      by (simp add: dns_lookup_test_cases [OF Cons.prems(1)])
    have fin: "\<forall>t\<in>set (lts @ [Fin (elapsed * 1000)]). \<exists>r. t = Fin r"
      using Cons.prems(2) by auto
    from Cons.IH [OF ok' fin] show ?thesis
      by (simp add: step)
  qed
qed

lemma foldl_pf_add_finite:
  "\<forall>t\<in>set xs. \<exists>r. t = Fin r \<Longrightarrow> \<exists>r. foldl pf_add (Fin a) xs = Fin r"
  by (induction xs arbitrary: a) auto

lemma avg_latency:
  assumes "\<forall>t\<in>set lts. \<exists>r. t = Fin r"
  shows "latency (if lts \<noteq> [] then pf_div_const (pf_sum lts) (real (length lts)) else PInf)"
proof -
  obtain r where "pf_sum lts = Fin r"
    using foldl_pf_add_finite [OF assms] by (auto simp: pf_sum_def)
  then show ?thesis by simp
qed

lemma dict_set_new: "k \<notin> fst ` set ps \<Longrightarrow> dict_set k v ps = ps @ [(k, v)]"
  by (induction ps) auto

text \<open>
  The measuring loop ends without an exception when every catalogue entry has an
  address; it appends one result per entry, in order, with a score that is finite or
  plus infinity.
\<close>

lemma measure_servers_results:
  assumes "timeout_ok (default_timeout s)"
    and "\<forall>c\<in>set cat. snd c \<noteq> []"
    and "distinct (map fst cat)"
    and "fst ` set cat \<inter> fst ` set results = {}"
  shows "\<exists>new s'. measure_servers env domains cat results s = (Inr (results @ new), s') \<and>
           map (\<lambda>x. (fst x, servers (snd x))) new = cat \<and>
           (\<forall>x\<in>set new. latency (total_score (snd x)))"
  using assms
proof (induction cat arbitrary: results s)
  case Nil
  then show ?case by simp
next
  case (Cons c cat)
  obtain name srvs where c: "c = (name, srvs)" by (cases c)
  obtain server0 more where srvs: "srvs = server0 # more"
    using Cons.prems(2) c by (cases srvs) auto
  obtain ping s1 where p: "ping_dns_server env server0 3 s = (ping, s1)"
    by (cases "ping_dns_server env server0 3 s")
  have lat_ping: "latency ping" and t1: "default_timeout s1 = default_timeout s"
    using ping_dns_server_latency [of env server0 3 s] p by simp_all
  have ok1: "timeout_ok (default_timeout s1)"
    using Cons.prems(1) t1 by simp
  obtain lts s2 where l: "lookup_domains env server0 domains [] s1 = (Inr lts, s2)"
    and fin: "\<forall>t\<in>set lts. \<exists>r. t = Fin r" and t2: "default_timeout s2 = default_timeout s1"
    using lookup_domains_finite [OF ok1, of "[]" env server0 domains] by auto
  let ?avg = "if lts \<noteq> [] then pf_div_const (pf_sum lts) (real (length lts)) else PInf"
  let ?res = "\<lparr>servers = srvs, ping_time = ping, avg_lookup_time = ?avg,
               total_score = pf_add ping ?avg\<rparr>"
  have fresh: "name \<notin> fst ` set results"
    using Cons.prems(4) c by auto
  have step: "measure_servers env domains (c # cat) results s =
              measure_servers env domains cat (results @ [(name, ?res)]) s2"
    using p l by (simp add: c srvs dict_set_new [OF fresh] Let_def)
  have ok2: "timeout_ok (default_timeout s2)"
    using ok1 t2 by simp
  have nonempty: "\<forall>c\<in>set cat. snd c \<noteq> []"
    using Cons.prems(2) by simp
  have dist: "distinct (map fst cat)"
    using Cons.prems(3) by simp
  have disj: "fst ` set cat \<inter> fst ` set (results @ [(name, ?res)]) = {}"
    using Cons.prems(3,4) c by auto
  obtain new s' where
    rest: "measure_servers env domains cat (results @ [(name, ?res)]) s2 =
             (Inr ((results @ [(name, ?res)]) @ new), s')"
    and names: "map (\<lambda>x. (fst x, servers (snd x))) new = cat"
    and lat: "\<forall>x\<in>set new. latency (total_score (snd x))"
    using Cons.IH [OF ok2 nonempty dist disj] by blast
  have lat_res: "latency (total_score ?res)"
    using latency_add [OF lat_ping avg_latency [OF fin]] by simp
  show ?case
  proof (intro exI conjI)
    show "measure_servers env domains (c # cat) results s = (Inr (results @ ((name, ?res) # new)), s')"
      using step rest by simp
    show "map (\<lambda>x. (fst x, servers (snd x))) ((name, ?res) # new) = c # cat"
      using names c by simp
    show "\<forall>x\<in>set ((name, ?res) # new). latency (total_score (snd x))"
      using lat lat_res by simp
  qed
qed

lemma DNS_SERVERS_wellformed:
  "(\<forall>c\<in>set DNS_SERVERS. snd c \<noteq> []) \<and> distinct (map fst DNS_SERVERS)"
  by (simp add: DNS_SERVERS_def)

text \<open>
  The selection on results with such scores: nothing is selected exactly when every
  score is infinite; otherwise the selected entry has a finite score that no score is
  below.
\<close>

lemma select_best_dns_minimum:
  assumes "results \<noteq> []" and "\<forall>x\<in>set results. latency (total_score (snd x))"
  shows "(fst (select_best_dns results s) = Inr None \<longleftrightarrow>
            (\<forall>x\<in>set results. total_score (snd x) = PInf)) \<and>
         (fst (select_best_dns results s) = Inr None \<or>
          (\<exists>best\<in>set results.
             fst (select_best_dns results s) = Inr (Some (fst best, servers (snd best))) \<and>
             (\<exists>r. total_score (snd best) = Fin r) \<and>
             (\<forall>x\<in>set results. pf_le (total_score (snd best)) (total_score (snd x)))))"
proof -
  obtain b xs where r: "results = b # xs"
    using assms(1) by (cases results) auto
  let ?key = "\<lambda>x. total_score (snd x)"
  let ?best = "min_from ?key b xs"
  have lat: "\<forall>x\<in>set (b # xs). latency (?key x)"
    using assms(2) r by simp
  have mem: "?best \<in> set results" and least: "\<forall>x\<in>set results. pf_le (?key ?best) (?key x)"
    using min_from_least [OF lat] r by simp_all
  have lat_best: "latency (?key ?best)"
    using mem assms(2) by blast
  show ?thesis
  proof (cases "?key ?best = PInf")
    case True
    have all: "\<forall>x\<in>set results. ?key x = PInf"
    proof
      fix x assume x: "x \<in> set results"
      then have "pf_le PInf (?key x)" using least True by auto
      then show "?key x = PInf" using assms(2) x by (blast intro: pf_le_PInf)
    qed
    have "fst (select_best_dns results s) = Inr None"
      using True by (simp add: select_best_dns_def py_min_def r)
    then show ?thesis using all by simp
  next
    case False
    then obtain v where v: "?key ?best = Fin v"
      using latency_cases [OF lat_best] by auto
    have sel: "fst (select_best_dns results s) = Inr (Some (fst ?best, servers (snd ?best)))"
      using v by (simp add: select_best_dns_def py_min_def r)
    have "\<not> (\<forall>x\<in>set results. ?key x = PInf)"
      using mem False by blast
    moreover have "\<exists>best\<in>set results.
             fst (select_best_dns results s) = Inr (Some (fst best, servers (snd best))) \<and>
             (\<exists>r. total_score (snd best) = Fin r) \<and>
             (\<forall>x\<in>set results. pf_le (total_score (snd best)) (total_score (snd x)))"
      using sel mem v least by (intro bexI [of _ "?best"]) auto
    moreover have "fst (select_best_dns results s) \<noteq> Inr None"
      using sel by simp
    ultimately show ?thesis by blast
  qed
qed

text \<open>
  C3. \<open>benchmark_dns_servers\<close> scores every candidate of the catalogue (ping latency
  plus average lookup latency, plus infinity for a failed measurement) and returns the
  name and the address list of a candidate whose score is the minimum of all scores
  when that minimum is finite; it returns \<open>(None, None)\<close> exactly when every score is
  infinite.
\<close>

theorem benchmark_dns_servers_selects_minimum:
  assumes "timeout_ok (default_timeout s)"
  shows "\<exists>results s1.
           measure_servers env (case doms of None \<Rightarrow> default_test_domains | Some ds \<Rightarrow> ds)
             DNS_SERVERS [] s = (Inr results, s1) \<and>
           map (\<lambda>x. (fst x, servers (snd x))) results = DNS_SERVERS \<and>
           (fst (benchmark_dns_servers env doms s) = Inr None \<longleftrightarrow>
              (\<forall>x\<in>set results. total_score (snd x) = PInf)) \<and>
           (fst (benchmark_dns_servers env doms s) = Inr None \<or>
            (\<exists>best\<in>set results.
               fst (benchmark_dns_servers env doms s) = Inr (Some (fst best, servers (snd best))) \<and>
               (\<exists>r. total_score (snd best) = Fin r) \<and>
               (\<forall>x\<in>set results. pf_le (total_score (snd best)) (total_score (snd x)))))"
proof -
  let ?domains = "case doms of None \<Rightarrow> default_test_domains | Some ds \<Rightarrow> ds"
  have disj: "fst ` set DNS_SERVERS \<inter> fst ` set ([] :: (string \<times> probe_result) list) = {}"
    by simp
  obtain results s1 where
    m: "measure_servers env ?domains DNS_SERVERS [] s = (Inr ([] @ results), s1)"
    and names: "map (\<lambda>x. (fst x, servers (snd x))) results = DNS_SERVERS"
    and lat: "\<forall>x\<in>set results. latency (total_score (snd x))"
    using measure_servers_results [OF assms conjunct1 [OF DNS_SERVERS_wellformed]
        conjunct2 [OF DNS_SERVERS_wellformed] disj, of env ?domains]
    by blast
  have ne: "results \<noteq> []"
    using names by (auto simp: DNS_SERVERS_def)
  have b: "benchmark_dns_servers env doms s = select_best_dns results s1"
    using m by (simp add: benchmark_dns_servers_def)
  have m': "measure_servers env ?domains DNS_SERVERS [] s = (Inr results, s1)"
    using m by simp
  note sel = select_best_dns_minimum [OF ne lat, of s1]
  show ?thesis
    unfolding b using m' names sel by blast
qed

lemma measure_servers_offline:
  "measure_servers env_offline default_test_domains DNS_SERVERS [] net_start =
     (Inr [(''cloudflare'', \<lparr>servers = [''1.1.1.1'', ''1.0.0.1''], ping_time = PInf,
              avg_lookup_time = PInf, total_score = PInf\<rparr>),
           (''google'', \<lparr>servers = [''8.8.8.8'', ''8.8.4.4''], ping_time = PInf,
              avg_lookup_time = PInf, total_score = PInf\<rparr>),
           (''quad9'', \<lparr>servers = [''9.9.9.9'', ''149.112.112.112''], ping_time = PInf,
              avg_lookup_time = PInf, total_score = PInf\<rparr>),
           (''opendns'', \<lparr>servers = [''208.67.222.222'', ''208.67.220.220''], ping_time = PInf,
              avg_lookup_time = PInf, total_score = PInf\<rparr>)],
      \<lparr>default_timeout = None, calls = 16, best_dns = None\<rparr>)"
  by (simp add: DNS_SERVERS_def default_test_domains_def net_start_def env_offline_def
      ping_dns_server_def dns_lookup_test_cases timeout_ok_def Let_def)

lemma measure_servers_flaky:
  "measure_servers env_flaky_dns default_test_domains DNS_SERVERS [] net_start =
     (Inr [(''cloudflare'', \<lparr>servers = [''1.1.1.1'', ''1.0.0.1''], ping_time = PInf,
              avg_lookup_time = Fin 20, total_score = PInf\<rparr>),
           (''google'', \<lparr>servers = [''8.8.8.8'', ''8.8.4.4''], ping_time = Fin 4,
              avg_lookup_time = Fin 20, total_score = Fin 24\<rparr>),
           (''quad9'', \<lparr>servers = [''9.9.9.9'', ''149.112.112.112''], ping_time = Fin 8,
              avg_lookup_time = Fin 20, total_score = Fin 28\<rparr>),
           (''opendns'', \<lparr>servers = [''208.67.222.222'', ''208.67.220.220''], ping_time = Fin 12,
              avg_lookup_time = Fin 20, total_score = Fin 32\<rparr>)],
      \<lparr>default_timeout = None, calls = 16, best_dns = None\<rparr>)"
  by (simp add: DNS_SERVERS_def default_test_domains_def net_start_def env_flaky_dns_def
      ping_dns_server_def dns_lookup_test_cases timeout_ok_def pf_sum_def Let_def)

theorem benchmark_dns_servers_selects_minimum_witness:
  "timeout_ok (default_timeout net_start) \<and>
   fst (benchmark_dns_servers env_offline None net_start) = Inr None \<and>
   fst (benchmark_dns_servers env_flaky_dns None net_start) =
     Inr (Some (''google'', [''8.8.8.8'', ''8.8.4.4'']))"
proof -
  have ok: "timeout_ok (default_timeout net_start)"
    by (simp add: net_start_def timeout_ok_def)
  have off: "fst (benchmark_dns_servers env_offline None net_start) = Inr None"
    using benchmark_dns_servers_selects_minimum [OF ok, of env_offline None]
    by (auto simp: measure_servers_offline)
  have "fst (benchmark_dns_servers env_flaky_dns None net_start) \<noteq> Inr None"
    using benchmark_dns_servers_selects_minimum [OF ok, of env_flaky_dns None]
    by (auto simp: measure_servers_flaky)
  then have fl: "fst (benchmark_dns_servers env_flaky_dns None net_start) =
                   Inr (Some (''google'', [''8.8.8.8'', ''8.8.4.4'']))"
    using benchmark_dns_servers_selects_minimum [OF ok, of env_flaky_dns None]
    by (auto simp: measure_servers_flaky pf_le_def)
  show ?thesis
    using ok off fl by simp
qed

section \<open>Retry: theorems\<close>











text \<open>
  The operation that fails twice, run with \<open>max_retries = 3\<close> and a backoff factor whose
  first power is refused by \<open>time.sleep\<close> or overflows: the exception of the wait
  reaches the caller after the second invocation.
\<close>

lemma fails_twice_wait_refused:
  assumes "\<And>s. sleep (Fin b) s = Inl e"
    and "py_pow (Fin b) (Suc 0) = Inr (Fin b) \<or> py_pow (Fin b) (Suc 0) = Inl e"
  shows "smart_retry fails_twice 3 (Fin b) = (Inl e, \<lparr>invocations = 2, sleeps = [1]\<rparr>)"
proof -
  have p0: "py_pow (Fin b) 0 = Inr (Fin 1)"
    by (simp add: py_pow_def)
  have s0: "sleep (Fin 1) s = Inr (s\<lparr>sleeps := sleeps s @ [1]\<rparr>)" for s
    by (simp add: sleep_def)
  have u: "py_range 3 = [0, Suc 0, Suc (Suc 0)]"
    by (simp add: py_range_def upt_conv_Cons)
  from assms(2) show ?thesis
  proof
    assume "py_pow (Fin b) (Suc 0) = Inr (Fin b)"
    then show ?thesis
      by (simp add: smart_retry_def u retry_start_def fails_twice_def p0 s0 assms(1) Let_def)
  next
    assume "py_pow (Fin b) (Suc 0) = Inl e"
    then show ?thesis
      by (simp add: smart_retry_def u retry_start_def fails_twice_def p0 s0 Let_def)
  qed
qed


text \<open>
  A backoff factor so large that the wait after the second failure is beyond the
  range of \<open>time.sleep\<close>: \<open>OverflowError\<close> reaches the caller.
\<close>

lemma smart_retry_overflow:
  "smart_retry fails_twice 3 (Fin (10 ^ 200)) = (Inl OverflowError, \<lparr>invocations = 2, sleeps = [1]\<rparr>)"
proof -
  define b :: real where "b = 10 ^ 200"
  have "(2::real) ^ 63 < 10 ^ 200 * 10 ^ 9"
    by simp
  then have big: "2 ^ 63 < \<bar>b\<bar> * 10 ^ 9"
    by (simp add: b_def)
  have s1: "sleep (Fin b) s = Inl OverflowError" for s
    using big by (simp only: sleep_def pyfloat.case if_True)
  have p1: "py_pow (Fin b) (Suc 0) = Inr (Fin b) \<or> py_pow (Fin b) (Suc 0) = Inl OverflowError"
    by (simp add: py_pow_def)
  have "smart_retry fails_twice 3 (Fin b) = (Inl OverflowError, \<lparr>invocations = 2, sleeps = [1]\<rparr>)"
    using s1 p1 by (rule fails_twice_wait_refused)
  then show ?thesis
    by (simp only: b_def)
qed

text \<open>
  C10. With \<open>max_retries = 0\<close>, or any value that is not positive, \<open>smart_retry\<close>
  returns \<open>None\<close>: the operation is never invoked, nothing is waited for and no failure
  is raised.
\<close>

theorem smart_retry_no_attempts:
  assumes "maxr \<le> 0"
  shows "smart_retry func maxr bf = (Inr None, \<lparr>invocations = 0, sleeps = []\<rparr>)"
  using assms by (simp add: smart_retry_def py_range_def retry_start_def)

theorem smart_retry_no_attempts_witness:
  "(0::int) \<le> 0 \<and>
   smart_retry fails_twice 0 (Fin (3 / 2)) = (Inr None, \<lparr>invocations = 0, sleeps = []\<rparr>) \<and>
   (- 3::int) \<le> 0 \<and>
   smart_retry always_fails (- 3) (Fin 2) = (Inr None, \<lparr>invocations = 0, sleeps = []\<rparr>)"
proof -
  have z: "(0::int) \<le> 0" and n: "(- 3::int) \<le> 0" by simp_all
  show ?thesis
    using z n smart_retry_no_attempts [OF z, of fails_twice "Fin (3 / 2)"]
      smart_retry_no_attempts [OF n, of always_fails "Fin 2"]
    by simp
qed

section \<open>System tuner: theorems\<close>

lemma put_fields [simp]:
  "executed (put l s) = executed s" "written (put l s) = written s"
  "out_lines (put l s) = out_lines s @ [l]"
  by (simp_all add: put_def)

lemma is_bbr_available_effects:
  "executed (snd (is_bbr_available env s)) =
     executed s @ (if os_type env = ''linux'' then [bbr_query] else []) \<and>
   written (snd (is_bbr_available env s)) = written s"
proof (cases "os_type env = ''linux''")
  case False
  then show ?thesis by (simp add: is_bbr_available_def)
next
  case True
  show ?thesis
  proof (cases "proc_run env (length (executed s)) bbr_query")
    case (Inl e)
    then show ?thesis using True by (simp add: is_bbr_available_def run_process_def)
  next
    case (Inr result)
    then show ?thesis
      using True by (simp add: is_bbr_available_def run_process_def split: list.split)
  qed
qed

text \<open>The privilege of the caller has no part in \<open>is_bbr_available\<close>.\<close>

lemma is_bbr_available_privilege:
  "is_bbr_available (env\<lparr>geteuid := u, IsUserAnAdmin := a\<rparr>) s = is_bbr_available env s"
  by (simp add: is_bbr_available_def run_process_def)

lemma get_commands_effects:
  "executed (snd (get_network_optimization_commands env s)) =
     executed s @ (if os_type env = ''linux'' then [bbr_query] else []) \<and>
   written (snd (get_network_optimization_commands env s)) = written s"
proof (cases "os_type env = ''linux''")
  case True
  obtain bbr s1 where b: "is_bbr_available env s = (bbr, s1)"
    by (cases "is_bbr_available env s")
  then show ?thesis
    using True is_bbr_available_effects [of env s]
    by (simp add: get_network_optimization_commands_def)
next
  case False
  then show ?thesis by (simp add: get_network_optimization_commands_def)
qed

lemma get_commands_privilege:
  "get_network_optimization_commands (env\<lparr>geteuid := u, IsUserAnAdmin := a\<rparr>) s =
   get_network_optimization_commands env s"
  by (simp add: get_network_optimization_commands_def is_bbr_available_privilege)

lemma listing_effects:
  "executed (foldl (\<lambda>st cmd. put (f cmd) st) s cmds) = executed s \<and>
   written (foldl (\<lambda>st cmd. put (f cmd) st) s cmds) = written s \<and>
   out_lines (foldl (\<lambda>st cmd. put (f cmd) st) s cmds) = out_lines s @ map f cmds"
  by (induction cmds arbitrary: s) simp_all

lemma dry_run_unfold:
  "apply_optimizations env True s =
     (let (commands, s1) =
            get_network_optimization_commands env (put (Log ''Starting system network optimization'') s)
      in (True, foldl (\<lambda>st cmd. put (Print (''  '' @ cmd)) st)
                  (put (Log ''DRY RUN - Commands that would be executed:'') s1) commands))"
  by (simp add: apply_optimizations_def Let_def)

lemma dry_run_executed:
  "executed (snd (apply_optimizations env True s)) =
     executed s @ (if os_type env = ''linux'' then [bbr_query] else [])"
proof -
  let ?s0 = "put (Log ''Starting system network optimization'') s"
  obtain commands s1 where g: "get_network_optimization_commands env ?s0 = (commands, s1)"
    by (cases "get_network_optimization_commands env ?s0")
  then show ?thesis
    using get_commands_effects [of env ?s0]
    by (simp add: dry_run_unfold listing_effects)
qed

text \<open>
  C5, as the code has it. \<open>apply_optimizations(dry_run=True)\<close> returns \<open>True\<close> whatever
  the privilege of the caller, which it does not look at; it lists every command of the
  command set and executes none of them; it writes no file. To build the command set on
  Linux it runs one read-only query, \<open>sysctl net.ipv4.tcp_available_congestion_control\<close>,
  through the command-execution facility; on every other system it runs nothing.
\<close>

theorem apply_optimizations_dry_run:
  "fst (apply_optimizations env True s) = True \<and>
   apply_optimizations (env\<lparr>geteuid := u, IsUserAnAdmin := a\<rparr>) True s =
     apply_optimizations env True s \<and>
   executed (snd (apply_optimizations env True s)) =
     executed s @ (if os_type env = ''linux'' then [bbr_query] else []) \<and>
   written (snd (apply_optimizations env True s)) = written s \<and>
   (let (commands, s1) =
          get_network_optimization_commands env (put (Log ''Starting system network optimization'') s)
    in out_lines (snd (apply_optimizations env True s)) =
         out_lines s1 @ Log ''DRY RUN - Commands that would be executed:'' #
           map (\<lambda>cmd. Print (''  '' @ cmd)) commands)"
proof -
  let ?s0 = "put (Log ''Starting system network optimization'') s"
  obtain commands s1 where g: "get_network_optimization_commands env ?s0 = (commands, s1)"
    by (cases "get_network_optimization_commands env ?s0")
  have e: "executed s1 = executed s @ (if os_type env = ''linux'' then [bbr_query] else [])"
    and w: "written s1 = written s"
    using get_commands_effects [of env ?s0] g by simp_all
  have r: "apply_optimizations env True s =
             (True, foldl (\<lambda>st cmd. put (Print (''  '' @ cmd)) st)
                      (put (Log ''DRY RUN - Commands that would be executed:'') s1) commands)"
    by (simp add: dry_run_unfold g)
  have p: "apply_optimizations (env\<lparr>geteuid := u, IsUserAnAdmin := a\<rparr>) True s =
             apply_optimizations env True s"
    by (simp add: dry_run_unfold get_commands_privilege)
  show ?thesis
    using e w p by (simp add: r g listing_effects)
qed

text \<open>
  The claim as the specification states it fails on a Linux host: the dry run invokes
  the command-execution facility once.
\<close>

theorem apply_optimizations_dry_run_counterexample:
  "executed sys_start = [] \<and>
   executed (snd (apply_optimizations linux_user True sys_start)) =
     [[''sysctl'', ''net.ipv4.tcp_available_congestion_control'']]"
proof -
  have "os_type linux_user = ''linux''"
    by (simp add: linux_user_def)
  then have "executed (snd (apply_optimizations linux_user True sys_start)) =
               executed sys_start @ [bbr_query]"
    using dry_run_executed by simp
  then show ?thesis
    by (simp add: sys_start_def bbr_query_def)
qed

lemma apply_optimizations_denied:
  "\<not> check_root_privileges env \<Longrightarrow> apply_optimizations env False s = (False, denied s)"
  by (simp add: apply_optimizations_def denied_def put_def)

text \<open>
  C6. When the privilege check returns false, \<open>apply_optimizations(dry_run=False)\<close>
  executes no command (the command-execution facility is not invoked), writes no file
  and returns \<open>False\<close>; all it does is log the refusal.
\<close>

theorem apply_optimizations_privilege_denied:
  assumes "\<not> check_root_privileges env"
  shows "fst (apply_optimizations env False s) = False \<and>
         executed (snd (apply_optimizations env False s)) = executed s \<and>
         written (snd (apply_optimizations env False s)) = written s \<and>
         snd (apply_optimizations env False s) = denied s"
  by (simp add: apply_optimizations_denied [OF assms] denied_def)

theorem apply_optimizations_privilege_denied_witness:
  "\<not> check_root_privileges linux_user \<and>
   apply_optimizations linux_user False sys_start =
     (False,
      \<lparr>executed = [], written = [],
       out_lines =
         [Log ''Starting system network optimization'',
          Log ''ERROR: Root/Administrator privileges required for system tuning'',
          Log ''Run with 'sudo' on Linux/macOS or as Administrator on Windows'']\<rparr>)"
proof -
  have d: "\<not> check_root_privileges linux_user"
    by (simp add: check_root_privileges_def linux_user_def)
  have "apply_optimizations linux_user False sys_start = (False, denied sys_start)"
    using apply_optimizations_privilege_denied [OF d, of sys_start]
    by (simp add: prod_eq_iff)
  then show ?thesis
    using d by (simp add: denied_def sys_start_def)
qed

section \<open>Tune action: theorems\<close>

lemma create_persistent_config_executed:
  "executed (snd (create_persistent_config env s)) = executed s"
  by (simp add: create_persistent_config_def split: option.split)

text \<open>
  C9, as the code has it. The tune action ends the process with exit code 0 after a
  dry-run listing and after an apply attempt, however many tuning commands succeeded,
  and also when the privilege is missing in an apply attempt: then no command is
  executed, but the result of \<open>apply_optimizations\<close> is not looked at, the persistent
  configuration is attempted all the same and the exit code is 0 again.
\<close>

theorem tune_action_exit_code:
  "(tune_system args \<or> tune_dry_run args \<longrightarrow> fst (tune_action env args s) = Some 0) \<and>
   (tune_system args \<and> \<not> tune_dry_run args \<and> \<not> check_root_privileges env \<longrightarrow>
      tune_action env args s = (Some 0, snd (create_persistent_config env (denied s))) \<and>
      executed (snd (tune_action env args s)) = executed s)"
proof (intro conjI impI)
  assume "tune_system args \<or> tune_dry_run args"
  then show "fst (tune_action env args s) = Some 0"
    by (simp add: tune_action_def Let_def split: prod.split)
next
  assume a: "tune_system args \<and> \<not> tune_dry_run args \<and> \<not> check_root_privileges env"
  then have ap: "apply_optimizations env False s = (False, denied s)"
    by (simp add: apply_optimizations_denied)
  show t: "tune_action env args s = (Some 0, snd (create_persistent_config env (denied s)))"
    using a by (simp add: tune_action_def ap)
  show "executed (snd (tune_action env args s)) = executed s"
    by (simp add: t create_persistent_config_executed denied_def)
qed

theorem tune_action_exit_code_witness:
  "tune_dry_run \<lparr>tune_system = False, tune_dry_run = True\<rparr> \<and>
   fst (tune_action darwin_user \<lparr>tune_system = False, tune_dry_run = True\<rparr> sys_start) = Some 0 \<and>
   tune_system \<lparr>tune_system = True, tune_dry_run = False\<rparr> \<and>
   \<not> tune_dry_run \<lparr>tune_system = True, tune_dry_run = False\<rparr> \<and>
   \<not> check_root_privileges darwin_user \<and>
   fst (tune_action darwin_user \<lparr>tune_system = True, tune_dry_run = False\<rparr> sys_start) = Some 0 \<and>
   executed (snd (tune_action darwin_user \<lparr>tune_system = True, tune_dry_run = False\<rparr> sys_start)) = []"
proof -
  let ?dry = "\<lparr>tune_system = False, tune_dry_run = True\<rparr>"
  let ?apply = "\<lparr>tune_system = True, tune_dry_run = False\<rparr>"
  have flags: "tune_dry_run ?dry" "tune_system ?apply" "\<not> tune_dry_run ?apply"
    by simp_all
  have d: "\<not> check_root_privileges darwin_user"
    by (simp add: check_root_privileges_def darwin_user_def linux_user_def)
  have e: "executed sys_start = []"
    by (simp add: sys_start_def)
  note dry = tune_action_exit_code [of ?dry darwin_user sys_start]
  note app = tune_action_exit_code [of ?apply darwin_user sys_start]
  have r1: "fst (tune_action darwin_user ?dry sys_start) = Some 0"
    using dry flags(1) by blast
  have r2: "fst (tune_action darwin_user ?apply sys_start) = Some 0"
    using app flags(2) by blast
  have r3: "executed (snd (tune_action darwin_user ?apply sys_start)) = executed sys_start"
    using app flags(2,3) d by blast
  show ?thesis
    using flags d r1 r2 r3 e by simp
qed

text \<open>
  The claim as the specification states it fails: a missing privilege in an apply
  attempt is not a hard stop. On a Linux host, for an unprivileged user, the tune
  action still attempts the persistent configuration (here the write is refused) and
  ends with exit code 0, the code of a normal completion.
\<close>

theorem tune_action_exit_code_counterexample:
  "\<not> check_root_privileges linux_user \<and>
   tune_action linux_user \<lparr>tune_system = True, tune_dry_run = False\<rparr> sys_start =
     (Some 0,
      \<lparr>executed = [], written = [],
       out_lines =
         [Log ''Starting system network optimization'',
          Log ''ERROR: Root/Administrator privileges required for system tuning'',
          Log ''Run with 'sudo' on Linux/macOS or as Administrator on Windows'',
          LogExc ''Failed to create persistent config: '' (OtherError ''PermissionError'')]\<rparr>) \<and>
   fst (tune_action linux_user \<lparr>tune_system = False, tune_dry_run = True\<rparr> sys_start) = Some 0"
proof -
  have d: "\<not> check_root_privileges linux_user"
    by (simp add: check_root_privileges_def linux_user_def)
  have ap: "apply_optimizations linux_user False sys_start = (False, denied sys_start)"
    using d by (rule apply_optimizations_denied)
  have c: "create_persistent_config linux_user (denied sys_start) =
             (False, put (LogExc ''Failed to create persistent config: '' (OtherError ''PermissionError''))
                       (denied sys_start))"
    by (simp add: create_persistent_config_def linux_user_def)
  have t: "tune_action linux_user \<lparr>tune_system = True, tune_dry_run = False\<rparr> sys_start =
             (Some 0, put (LogExc ''Failed to create persistent config: '' (OtherError ''PermissionError''))
                        (denied sys_start))"
    by (simp add: tune_action_def ap c)
  have dry: "fst (tune_action linux_user \<lparr>tune_system = False, tune_dry_run = True\<rparr> sys_start) = Some 0"
    by (simp add: tune_action_def Let_def split: prod.split)
  have v: "put (LogExc ''Failed to create persistent config: '' (OtherError ''PermissionError''))
             (denied sys_start) =
           \<lparr>executed = [], written = [],
            out_lines =
              [Log ''Starting system network optimization'',
               Log ''ERROR: Root/Administrator privileges required for system tuning'',
               Log ''Run with 'sudo' on Linux/macOS or as Administrator on Windows'',
               LogExc ''Failed to create persistent config: '' (OtherError ''PermissionError'')]\<rparr>"
    by (simp add: put_def denied_def sys_start_def)
  show ?thesis
    using d dry by (simp add: t v)
qed

end
